theory Spec2Isabelle
  imports Complex_Main
begin

section \<open>Numbers and strings of the client screens\<close>

text \<open>
  The screens are TypeScript. A number of the source is a \<open>jsnum\<close>: a finite value (a
  \<^typ>\<open>real\<close>, \<open>Finite 0\<close> being the positive zero), the negative zero, an infinity or
  \<open>NaN\<close>. Where the source only compares, takes a minimum or rounds to an integer, which
  are exact on doubles, a finite number is read as a \<^typ>\<open>real\<close>. A field that may be absent
  (\<open>undefined\<close> or \<open>null\<close>) is an \<^typ>\<open>'a option\<close>. A character of a \<^typ>\<open>string\<close> is
  read as a code unit below 256.
\<close>

datatype jsnum = Finite real | NegZero | PosInfinity | NegInfinity | NaN

text \<open>
  Arithmetic of the source is IEEE 754 binary64. \<open>round_double\<close> rounds a real to the
  nearest double, a tie to the even mantissa: \<open>binade\<close> is the exponent of the power of two
  at or below the magnitude (found by a bounded search that covers every exponent of the
  format), the quantum is 52 binary places below it (not below \<open>2^-1074\<close> for subnormals),
  a result of magnitude \<open>2^1024\<close> or more is an infinity, and a result that rounds to zero
  keeps the sign of its argument.
\<close>

definition pow2 :: "int \<Rightarrow> real" where
  "pow2 e = (if 0 \<le> e then 2 ^ nat e else 1 / 2 ^ nat (- e))"

fun binade_search :: "nat \<Rightarrow> int \<Rightarrow> real \<Rightarrow> int" where
  "binade_search 0 e x = e"
| "binade_search (Suc n) e x =
     (if x < pow2 e then binade_search n (e - 1) x
      else if pow2 (e + 1) \<le> x then binade_search n (e + 1) x
      else e)"

definition binade :: "real \<Rightarrow> int" where
  "binade x = binade_search 1100 0 \<bar>x\<bar>"

definition round_half_even :: "real \<Rightarrow> int" where
  "round_half_even y =
     (let f = \<lfloor>y\<rfloor> in
      if y - of_int f < 1 / 2 then f
      else if 1 / 2 < y - of_int f then f + 1
      else if even f then f else f + 1)"

definition round_double :: "real \<Rightarrow> jsnum" where
  "round_double x =
     (let q = pow2 (max (binade x) (- 1022) - 52);
          r = of_int (round_half_even (x / q)) * q
      in if pow2 1024 \<le> \<bar>r\<bar> then (if 0 < x then PosInfinity else NegInfinity)
         else if r = 0 then (if x < 0 then NegZero else Finite 0)
         else Finite r)"

text \<open>A real is a double when rounding leaves it as it is.\<close>

definition is_double :: "real \<Rightarrow> bool" where
  "is_double x = (round_double x = Finite x)"

text \<open>The sign bit, the zeros, the infinities and the finite value of a number.\<close>

fun js_sign_neg :: "jsnum \<Rightarrow> bool" where
  "js_sign_neg (Finite x) = (x < 0)"
| "js_sign_neg NegZero = True"
| "js_sign_neg PosInfinity = False"
| "js_sign_neg NegInfinity = True"
| "js_sign_neg NaN = False"

fun js_is_zero :: "jsnum \<Rightarrow> bool" where
  "js_is_zero (Finite x) = (x = 0)"
| "js_is_zero NegZero = True"
| "js_is_zero _ = False"

fun js_is_inf :: "jsnum \<Rightarrow> bool" where
  "js_is_inf PosInfinity = True"
| "js_is_inf NegInfinity = True"
| "js_is_inf _ = False"

fun js_value :: "jsnum \<Rightarrow> real" where
  "js_value (Finite x) = x"
| "js_value _ = 0"

definition js_signed_zero :: "bool \<Rightarrow> jsnum" where
  "js_signed_zero neg = (if neg then NegZero else Finite 0)"

definition js_signed_inf :: "bool \<Rightarrow> jsnum" where
  "js_signed_inf neg = (if neg then NegInfinity else PosInfinity)"

text \<open>
  \<open>a / b\<close> and \<open>a * b\<close> of the source: \<open>NaN\<close> propagates, infinities and zeros follow the
  sign rule, \<open>0 / 0\<close>, \<open>Infinity / Infinity\<close> and \<open>0 * Infinity\<close> are \<open>NaN\<close>, and every
  other result is the exact one rounded to a double.
\<close>

definition js_div :: "jsnum \<Rightarrow> jsnum \<Rightarrow> jsnum" where
  "js_div a b =
     (let neg = (js_sign_neg a \<noteq> js_sign_neg b) in
      if a = NaN \<or> b = NaN then NaN
      else if js_is_inf a then (if js_is_inf b then NaN else js_signed_inf neg)
      else if js_is_inf b then js_signed_zero neg
      else if js_is_zero b then (if js_is_zero a then NaN else js_signed_inf neg)
      else if js_is_zero a then js_signed_zero neg
      else round_double (js_value a / js_value b))"

definition js_times :: "jsnum \<Rightarrow> jsnum \<Rightarrow> jsnum" where
  "js_times a b =
     (let neg = (js_sign_neg a \<noteq> js_sign_neg b) in
      if a = NaN \<or> b = NaN then NaN
      else if js_is_inf a \<or> js_is_inf b
        then (if js_is_zero a \<or> js_is_zero b then NaN else js_signed_inf neg)
      else if js_is_zero a \<or> js_is_zero b then js_signed_zero neg
      else round_double (js_value a * js_value b))"

text \<open>\<open>a < b\<close> and \<open>a <= b\<close> of the source: false on \<open>NaN\<close>, the two zeros equal.\<close>

fun js_rank :: "jsnum \<Rightarrow> int" where
  "js_rank NegInfinity = - 1"
| "js_rank PosInfinity = 1"
| "js_rank _ = 0"

definition js_lt :: "jsnum \<Rightarrow> jsnum \<Rightarrow> bool" where
  "js_lt a b =
     (a \<noteq> NaN \<and> b \<noteq> NaN
      \<and> (js_rank a < js_rank b \<or> (js_rank a = js_rank b \<and> js_value a < js_value b)))"

definition js_le :: "jsnum \<Rightarrow> jsnum \<Rightarrow> bool" where
  "js_le a b =
     (a \<noteq> NaN \<and> b \<noteq> NaN
      \<and> (js_rank a < js_rank b \<or> (js_rank a = js_rank b \<and> js_value a \<le> js_value b)))"

fun js_is_double :: "jsnum \<Rightarrow> bool" where
  "js_is_double (Finite x) = is_double x"
| "js_is_double _ = True"

text \<open>\<open>x || 0\<close> on an optional number: absent, \<open>null\<close> and \<open>0\<close> all give \<open>0\<close>.\<close>

definition orZero :: "real option \<Rightarrow> real" where
  "orZero x = (case x of None \<Rightarrow> 0 | Some v \<Rightarrow> (if v = 0 then 0 else v))"

text \<open>\<open>Math.round\<close>: the nearest integer, a half rounded up.\<close>

definition Math_round :: "real \<Rightarrow> int" where
  "Math_round x = \<lfloor>x + 1 / 2\<rfloor>"

text \<open>The white space that \<open>parseInt\<close> and \<open>trim\<close> skip, among the code units below 256.\<close>

definition isStrWhiteSpaceChar :: "char \<Rightarrow> bool" where
  "isStrWhiteSpaceChar c =
     (of_char c \<in> {9, 10, 11, 12, 13, 32, 160 :: nat})"

definition trim :: "string \<Rightarrow> string" where
  "trim s = rev (dropWhile isStrWhiteSpaceChar (rev (dropWhile isStrWhiteSpaceChar s)))"

definition digitValue :: "char \<Rightarrow> nat option" where
  "digitValue c =
     (let n = (of_char c :: nat) in
      if 48 \<le> n \<and> n \<le> 57 then Some (n - 48)
      else if 97 \<le> n \<and> n \<le> 122 then Some (n - 87)
      else if 65 \<le> n \<and> n \<le> 90 then Some (n - 55)
      else None)"

definition isRadixDigit :: "nat \<Rightarrow> char \<Rightarrow> bool" where
  "isRadixDigit r c = (case digitValue c of None \<Rightarrow> False | Some d \<Rightarrow> d < r)"

fun digitsValue :: "nat \<Rightarrow> nat \<Rightarrow> string \<Rightarrow> nat" where
  "digitsValue r acc [] = acc"
| "digitsValue r acc (c # cs) =
     (case digitValue c of
        None \<Rightarrow> acc
      | Some d \<Rightarrow> digitsValue r (acc * r + d) cs)"

text \<open>
  \<open>parseInt(text)\<close> with no radix, as ECMAScript defines it: leading white space is skipped,
  a sign is read, a \<open>0x\<close> prefix selects radix 16, and the longest run of digits is the
  value. \<open>None\<close> is \<open>NaN\<close> (no digit at all). The value is the exact integer; the source
  rounds an integer beyond \<open>2^53\<close> to a double or to an infinity, which stays beyond
  \<open>2^53\<close> in magnitude and keeps its sign.
\<close>

definition parseInt :: "string \<Rightarrow> int option" where
  "parseInt inputString =
     (let S = dropWhile isStrWhiteSpaceChar inputString;
          sign = (if take 1 S = ''-'' then - 1 else 1 :: int);
          S1 = (if take 1 S = ''+'' \<or> take 1 S = ''-'' then drop 1 S else S);
          hex = (take 2 S1 = ''0x'' \<or> take 2 S1 = ''0X'');
          R = (if hex then 16 else 10 :: nat);
          S2 = (if hex then drop 2 S1 else S1);
          Z = takeWhile (isRadixDigit R) S2
      in if Z = [] then None else Some (sign * int (digitsValue R 0 Z)))"

section \<open>Food scanner: compatibility colour and icon\<close>

text \<open>
  \<open>getCompatibilityColor\<close> and \<open>getCompatibilityIcon\<close> of \<open>FoodScannerScreen\<close>. The icon is
  the element the source returns: its component, its size and its colour.
\<close>

definition getCompatibilityColor :: "real \<Rightarrow> string" where
  "getCompatibilityColor score =
     (if score \<ge> 80 then ''#10b981''
      else if score \<ge> 60 then ''#f59e0b''
      else if score \<ge> 40 then ''#ef4444''
      else ''#dc2626'')"

datatype icon_component = CheckCircle | Info | AlertTriangle

datatype icon = Icon (icon_kind: icon_component) (icon_size: nat) (icon_color: string)

definition getCompatibilityIcon :: "real \<Rightarrow> icon" where
  "getCompatibilityIcon score =
     (if score \<ge> 80 then Icon CheckCircle 20 ''#10b981''
      else if score \<ge> 60 then Icon Info 20 ''#f59e0b''
      else Icon AlertTriangle 20 ''#ef4444'')"

text \<open>
  The four-tier table as the specification words it, on \<open>[0,100]\<close>:
  \<open>[80,100]\<close> good, \<open>[60,80)\<close> caution, \<open>[40,60)\<close> warning, \<open>[0,40)\<close> critical.
\<close>

datatype tier = Good | Caution | Warning | Critical

definition spec_tier :: "real \<Rightarrow> tier option" where
  "spec_tier score =
     (if 80 \<le> score \<and> score \<le> 100 then Some Good
      else if 60 \<le> score \<and> score < 80 then Some Caution
      else if 40 \<le> score \<and> score < 60 then Some Warning
      else if 0 \<le> score \<and> score < 40 then Some Critical
      else None)"

text \<open>The tier a colour stands for: the colours of \<open>getCompatibilityColor\<close>, top to bottom.\<close>

definition color_tier :: "string \<Rightarrow> tier option" where
  "color_tier c =
     (if c = ''#10b981'' then Some Good
      else if c = ''#f59e0b'' then Some Caution
      else if c = ''#ef4444'' then Some Warning
      else if c = ''#dc2626'' then Some Critical
      else None)"

section \<open>Food scanner: daily contribution and quantity\<close>

record DailyContribution =
  calories_percent :: real
  protein_percent :: real
  carbs_percent :: real
  fat_percent :: real

record UserAnalysis =
  compatibility_score :: real
  daily_contribution :: DailyContribution
  alerts :: "string list"
  recommendations :: "string list"
  health_assessment :: string

text \<open>
  One item of the Daily Contribution section: its label, the number in the \<open>width\<close> of the
  fill (a percentage) and the number in the text beside the bar.
\<close>

record contribution_item =
  contribution_label :: string
  contribution_fill_width :: real
  contribution_percent_text :: int

text \<open>The section renders two items, calories and protein, in this order.\<close>

definition dailyContributionSection :: "UserAnalysis \<Rightarrow> contribution_item list" where
  "dailyContributionSection user_analysis =
     [\<lparr>contribution_label = ''Calories'',
       contribution_fill_width =
         min (calories_percent (daily_contribution user_analysis)) 100,
       contribution_percent_text =
         Math_round (calories_percent (daily_contribution user_analysis))\<rparr>,
      \<lparr>contribution_label = ''Protein'',
       contribution_fill_width =
         min (protein_percent (daily_contribution user_analysis)) 100,
       contribution_percent_text =
         Math_round (protein_percent (daily_contribution user_analysis))\<rparr>]"

text \<open>
  The quantity of the add-to-meal modal: \<open>useState(100)\<close> and the three handlers that call
  \<open>setQuantity\<close> (the minus button, the text input, the plus button).
\<close>

definition initial_quantity :: int where
  "initial_quantity = 100"

datatype quantity_event = PressMinus | ChangeText string | PressPlus

fun quantity_step :: "int \<Rightarrow> quantity_event \<Rightarrow> int" where
  "quantity_step quantity PressMinus = max 10 (quantity - 10)"
| "quantity_step quantity (ChangeText text) =
     (let num = (case parseInt text of None \<Rightarrow> 0 | Some n \<Rightarrow> (if n = 0 then 0 else n))
      in max 0 (min 1000 num))"
| "quantity_step quantity PressPlus = min 1000 (quantity + 10)"

definition quantity_after :: "quantity_event list \<Rightarrow> int" where
  "quantity_after evs = foldl quantity_step initial_quantity evs"

section \<open>Statistics screen: chart data and achievements\<close>

record DailyRecord =
  date :: string
  calories :: "real option"
  protein_g :: "real option"
  carbs_g :: "real option"
  fats_g :: "real option"

record Achievement =
  title :: string
  description :: string
  progress :: jsnum
  max_progress :: jsnum

record Statistics =
  dailyBreakdown :: "DailyRecord list option"
  average_protein_g :: "real option"
  average_carbs_g :: "real option"
  average_fats_g :: "real option"
  achievements :: "Achievement list option"

text \<open>
  A dataset of a chart: its numbers, the base colour of its \<open>color\<close> function and its
  stroke width where the source gives one.
\<close>

record Dataset =
  data :: "real list"
  rgb :: "nat \<times> nat \<times> nat"
  strokeWidth :: "nat option"

record ChartSeries =
  labels :: "string list"
  datasets :: "Dataset list"

record PieSlice =
  name :: string
  population :: real
  color :: string
  legendFontColor :: string
  legendFontSize :: nat

record ChartData =
  line :: ChartSeries
  bar :: ChartSeries
  pie :: "PieSlice list"

text \<open>\<open>xs.slice(-n)\<close>: the last \<open>n\<close> elements, or all of them when there are fewer.\<close>

definition slice_last :: "nat \<Rightarrow> 'a list \<Rightarrow> 'a list" where
  "slice_last n xs = drop (length xs - n) xs"

definition caloriesData :: "DailyRecord list \<Rightarrow> real list" where
  "caloriesData dailyData = map (\<lambda>day. orZero (calories day)) dailyData"

definition proteinData :: "DailyRecord list \<Rightarrow> real list" where
  "proteinData dailyData = map (\<lambda>day. orZero (protein_g day)) dailyData"

definition carbsData :: "DailyRecord list \<Rightarrow> real list" where
  "carbsData dailyData = map (\<lambda>day. orZero (carbs_g day)) dailyData"

definition fatsData :: "DailyRecord list \<Rightarrow> real list" where
  "fatsData dailyData = map (\<lambda>day. orZero (fats_g day)) dailyData"

text \<open>
  The \<open>chartData\<close> memo. \<open>weekdayShort\<close> stands for
  \<open>new Date(d).toLocaleDateString("en-US", { weekday: "short" })\<close>, a library function.
  \<open>None\<close> is \<open>null\<close>. The source also computes the protein, carbs and fats arrays and
  leaves them out of the object it returns.
\<close>

definition chartData :: "(string \<Rightarrow> string) \<Rightarrow> Statistics option \<Rightarrow> ChartData option" where
  "chartData weekdayShort statistics =
     (case statistics of
        None \<Rightarrow> None
      | Some st \<Rightarrow>
          (case dailyBreakdown st of
             None \<Rightarrow> None
           | Some breakdown \<Rightarrow>
               (let dailyData = slice_last 7 breakdown;
                    dayLabels = map (\<lambda>day. weekdayShort (date day)) dailyData
                in Some
                  \<lparr>line = \<lparr>labels = dayLabels,
                            datasets = [\<lparr>data = caloriesData dailyData,
                                         rgb = (239, 68, 68),
                                         strokeWidth = Some 3\<rparr>]\<rparr>,
                    bar = \<lparr>labels = dayLabels,
                           datasets = [\<lparr>data = caloriesData dailyData,
                                        rgb = (16, 185, 129),
                                        strokeWidth = None\<rparr>]\<rparr>,
                    pie = [\<lparr>name = ''Protein'',
                            population = orZero (average_protein_g st),
                            color = ''#8b5cf6'',
                            legendFontColor = ''#374151'',
                            legendFontSize = 12\<rparr>,
                           \<lparr>name = ''Carbs'',
                            population = orZero (average_carbs_g st),
                            color = ''#f59e0b'',
                            legendFontColor = ''#374151'',
                            legendFontSize = 12\<rparr>,
                           \<lparr>name = ''Fats'',
                            population = orZero (average_fats_g st),
                            color = ''#ef4444'',
                            legendFontColor = ''#374151'',
                            legendFontSize = 12\<rparr>]\<rparr>)))"

text \<open>
  The achievements section: rendered when the list is present and not empty, one card for
  each of the first five achievements, the fill of a card as wide as
  \<open>(progress / max_progress) * 100\<close> percent.
\<close>

record achievement_card =
  card_title :: string
  card_description :: string
  card_fill_width :: jsnum

definition achievementCard :: "Achievement \<Rightarrow> achievement_card" where
  "achievementCard achievement =
     \<lparr>card_title = title achievement,
      card_description = description achievement,
      card_fill_width =
        js_times (js_div (progress achievement) (max_progress achievement)) (Finite 100)\<rparr>"

definition achievementsSection :: "Statistics option \<Rightarrow> achievement_card list option" where
  "achievementsSection statistics =
     (case statistics of
        None \<Rightarrow> None
      | Some st \<Rightarrow>
          (case achievements st of
             None \<Rightarrow> None
           | Some as \<Rightarrow>
               (if length as > 0 then Some (map achievementCard (take 5 as)) else None)))"

section \<open>Recommended menus screen\<close>

record RecommendedMenu =
  menu_id :: string
  menu_title :: string
  total_calories :: real
  days_count :: int
  created_at :: string

record GenerateMenuRequest =
  days :: int
  mealsPerDay :: string
  mealChangeFrequency :: string
  includeLeftovers :: bool
  sameMealTimes :: bool
  targetCalories :: "real option"
  dietaryPreferences :: "string list option"
  excludedIngredients :: "string list option"
  budget :: "int option"

text \<open>
  What \<open>await api.get(...)\<close> gives inside the \<open>try\<close>: the call throws (a network or
  transport error; a response without a body throws as well when it is read), or it returns
  a response with its \<open>success\<close> flag and its optional list of menus.
\<close>

datatype menus_response = Response (success: bool) (payload: "RecommendedMenu list option")

datatype 'a awaited = Threw | Returned 'a

text \<open>A request body posted to the API: \<open>generate\<close>, or \<open>generate-custom\<close> with its text.\<close>

datatype request =
  PostGenerate GenerateMenuRequest
| PostGenerateCustom GenerateMenuRequest string

fun request_config :: "request \<Rightarrow> GenerateMenuRequest" where
  "request_config (PostGenerate c) = c"
| "request_config (PostGenerateCustom c text) = c"

text \<open>
  The state of the screen that the claims are about; \<open>posted\<close> records the bodies posted so
  far, oldest first.
\<close>

record menus_screen =
  menus :: "RecommendedMenu list"
  isLoading :: bool
  generateConfig :: GenerateMenuRequest
  customRequest :: string
  posted :: "request list"

definition initial_screen :: menus_screen where
  "initial_screen =
     \<lparr>menus = [],
      isLoading = True,
      generateConfig =
        \<lparr>days = 7,
         mealsPerDay = ''3_main'',
         mealChangeFrequency = ''daily'',
         includeLeftovers = False,
         sameMealTimes = True,
         targetCalories = None,
         dietaryPreferences = None,
         excludedIngredients = None,
         budget = Some 200\<rparr>,
      customRequest = [],
      posted = []\<rparr>"

text \<open>\<open>loadMenus\<close>: the \<open>try\<close>, the \<open>catch\<close> and the \<open>finally\<close>.\<close>

definition loadMenus :: "menus_response awaited \<Rightarrow> menus_screen \<Rightarrow> menus_screen" where
  "loadMenus outcome s =
     (case outcome of
        Returned response \<Rightarrow>
          (if success response
           then s\<lparr>menus := (case payload response of None \<Rightarrow> [] | Some ms \<Rightarrow> ms),
                  isLoading := False\<rparr>
           else s\<lparr>menus := [], isLoading := False\<rparr>)
      | Threw \<Rightarrow> s\<lparr>menus := [], isLoading := False\<rparr>)"

text \<open>The option lists that the generate modal maps to buttons.\<close>

definition dayOptions :: "int list" where
  "dayOptions = [3, 7, 14]"

definition mealOptions :: "string list" where
  "mealOptions = [''3_main'', ''3_plus_2_snacks'', ''2_plus_1_intermediate'']"

definition budgetOptions :: "int list" where
  "budgetOptions = [100, 150, 200, 300]"

text \<open>
  The events of the screen. A press names its button by the position in the option list; a
  position with no button changes nothing. The generate buttons post the current
  configuration; the custom one returns early on a blank text.
\<close>

datatype menus_event =
  PressDay nat
| PressMeals nat
| PressBudget nat
| ToggleIncludeLeftovers
| ToggleSameMealTimes
| ChangeCustomRequest string
| PressGenerate
| PressGenerateCustom
| LoadMenus "menus_response awaited"

fun menus_step :: "menus_screen \<Rightarrow> menus_event \<Rightarrow> menus_screen" where
  "menus_step s (PressDay i) =
     (if i < length dayOptions
      then s\<lparr>generateConfig := (generateConfig s)\<lparr>days := dayOptions ! i\<rparr>\<rparr>
      else s)"
| "menus_step s (PressMeals i) =
     (if i < length mealOptions
      then s\<lparr>generateConfig := (generateConfig s)\<lparr>mealsPerDay := mealOptions ! i\<rparr>\<rparr>
      else s)"
| "menus_step s (PressBudget i) =
     (if i < length budgetOptions
      then s\<lparr>generateConfig := (generateConfig s)\<lparr>budget := Some (budgetOptions ! i)\<rparr>\<rparr>
      else s)"
| "menus_step s ToggleIncludeLeftovers =
     s\<lparr>generateConfig :=
         (generateConfig s)\<lparr>includeLeftovers := \<not> includeLeftovers (generateConfig s)\<rparr>\<rparr>"
| "menus_step s ToggleSameMealTimes =
     s\<lparr>generateConfig :=
         (generateConfig s)\<lparr>sameMealTimes := \<not> sameMealTimes (generateConfig s)\<rparr>\<rparr>"
| "menus_step s (ChangeCustomRequest text) = s\<lparr>customRequest := text\<rparr>"
| "menus_step s PressGenerate = s\<lparr>posted := posted s @ [PostGenerate (generateConfig s)]\<rparr>"
| "menus_step s PressGenerateCustom =
     (if trim (customRequest s) = [] then s
      else s\<lparr>posted :=
               posted s @ [PostGenerateCustom (generateConfig s) (trim (customRequest s))]\<rparr>)"
| "menus_step s (LoadMenus outcome) = loadMenus outcome s"

definition screen_after :: "menus_event list \<Rightarrow> menus_screen" where
  "screen_after evs = foldl menus_step initial_screen evs"

text \<open>The two domains of the configuration.\<close>

definition config_in_domain :: "GenerateMenuRequest \<Rightarrow> bool" where
  "config_in_domain c =
     (days c \<in> {3, 7, 14}
      \<and> mealsPerDay c \<in> {''3_main'', ''3_plus_2_snacks'', ''2_plus_1_intermediate''})"

section \<open>Compatibility score\<close>

text \<open>
  Modelled from the spec: \<open>analyze\<close> of the Compatibility Module. The sources hold only its
  result type (\<open>UserAnalysis\<close>) and the screen that displays \<open>compatibility_score\<close>; the
  function that computes the score is not among them. From the specification: the daily
  contribution of a nutrient is \<open>(per100g * quantityGrams / 100) / target * 100\<close>, and 0 for
  a zero target; an alert is triggered for each entry of the threshold table whose
  unclamped contribution exceeds its threshold; a conflict is an allergen of the product
  that matches a restriction of the user; the score starts at 100, loses a fixed configured
  penalty for each triggered alert and each conflict, and is floored at 0.
\<close>

datatype nutrient = Calories | Protein | Carbs | Fat

datatype violation = TriggeredAlert nutrient | Conflict string

record ScannedProduct =
  product_name :: string
  nutrition_per_100g :: "nutrient \<Rightarrow> real"
  allergens :: "string list"

record DailyTargets =
  targets :: "nutrient \<Rightarrow> real"
  restrictions :: "string list"

record analyze_config =
  thresholds :: "(nutrient \<times> real) list"
  penalty :: "violation \<Rightarrow> nat"

definition analyze_contribution ::
  "ScannedProduct \<Rightarrow> real \<Rightarrow> DailyTargets \<Rightarrow> nutrient \<Rightarrow> real" where
  "analyze_contribution product quantityGrams userTargets n =
     (if targets userTargets n = 0 then 0
      else (nutrition_per_100g product n * quantityGrams / 100) / targets userTargets n * 100)"

definition analyze_alerts ::
  "analyze_config \<Rightarrow> ScannedProduct \<Rightarrow> real \<Rightarrow> DailyTargets \<Rightarrow> nutrient list" where
  "analyze_alerts cfg product quantityGrams userTargets =
     map fst (filter (\<lambda>(n, threshold_percent).
                  analyze_contribution product quantityGrams userTargets n > threshold_percent)
                (thresholds cfg))"

definition analyze_conflicts :: "ScannedProduct \<Rightarrow> DailyTargets \<Rightarrow> string list" where
  "analyze_conflicts product userTargets =
     filter (\<lambda>a. a \<in> set (restrictions userTargets)) (remdups (allergens product))"

definition analyze_violations ::
  "analyze_config \<Rightarrow> ScannedProduct \<Rightarrow> real \<Rightarrow> DailyTargets \<Rightarrow> violation list" where
  "analyze_violations cfg product quantityGrams userTargets =
     map TriggeredAlert (analyze_alerts cfg product quantityGrams userTargets)
     @ map Conflict (analyze_conflicts product userTargets)"

definition score_of_violations :: "(violation \<Rightarrow> nat) \<Rightarrow> violation list \<Rightarrow> int" where
  "score_of_violations pen vs = max 0 (100 - int (sum_list (map pen vs)))"

definition analyze_score ::
  "analyze_config \<Rightarrow> ScannedProduct \<Rightarrow> real \<Rightarrow> DailyTargets \<Rightarrow> int" where
  "analyze_score cfg product quantityGrams userTargets =
     score_of_violations (penalty cfg)
       (analyze_violations cfg product quantityGrams userTargets)"

section \<open>Invariant and sample inputs\<close>

text \<open>
  The invariant of the menus screen: the configuration lies in the two domains, and so does
  the configuration of every body posted so far.
\<close>

definition screen_inv :: "menus_screen \<Rightarrow> bool" where
  "screen_inv s =
     (config_in_domain (generateConfig s)
      \<and> (\<forall>r \<in> set (posted s). config_in_domain (request_config r)))"

text \<open>Concrete inputs on which the theorems below are evaluated.\<close>

definition sample_day :: "string \<Rightarrow> real option \<Rightarrow> DailyRecord" where
  "sample_day d c = \<lparr>date = d, calories = c, protein_g = None, carbs_g = Some 150, fats_g = None\<rparr>"

definition sample_records :: "DailyRecord list" where
  "sample_records =
     [sample_day ''d1'' (Some 1800), sample_day ''d2'' (Some 2000), sample_day ''d3'' None,
      sample_day ''d4'' (Some 2100), sample_day ''d5'' (Some 1900), sample_day ''d6'' (Some 2200),
      sample_day ''d7'' (Some 2050), sample_day ''d8'' (Some 1950)]"

definition sample_achievements :: "Achievement list" where
  "sample_achievements =
     [\<lparr>title = ''Streak'', description = ''Five days in a row'',
       progress = Finite 3, max_progress = Finite 5\<rparr>,
      \<lparr>title = ''Water'', description = ''Ten glasses'',
       progress = Finite 12, max_progress = Finite 10\<rparr>,
      \<lparr>title = ''Steps'', description = ''A hundred thousand steps'',
       progress = Finite 7, max_progress = Finite 100\<rparr>,
      \<lparr>title = ''Empty'', description = ''No goal set'',
       progress = Finite 1, max_progress = Finite 0\<rparr>]"

definition sample_statistics :: "DailyRecord list option \<Rightarrow> Statistics" where
  "sample_statistics breakdown =
     \<lparr>dailyBreakdown = breakdown,
      average_protein_g = Some 50,
      average_carbs_g = None,
      average_fats_g = Some 20,
      achievements = Some sample_achievements\<rparr>"

definition sample_analysis :: UserAnalysis where
  "sample_analysis =
     \<lparr>compatibility_score = 30,
      daily_contribution =
        \<lparr>calories_percent = 150, protein_percent = 30, carbs_percent = 10, fat_percent = 5\<rparr>,
      alerts = [''High in calories''],
      recommendations = [],
      health_assessment = ''Occasional treat''\<rparr>"

definition sample_menu :: RecommendedMenu where
  "sample_menu =
     \<lparr>menu_id = ''m1'', menu_title = ''Week one'', total_calories = 14000, days_count = 7,
      created_at = ''2024-01-01''\<rparr>"

definition sample_config :: analyze_config where
  "sample_config =
     \<lparr>thresholds = [(Calories, 30)],
      penalty = (\<lambda>v. case v of TriggeredAlert n \<Rightarrow> 15 | Conflict a \<Rightarrow> 40)\<rparr>"

definition sample_product :: ScannedProduct where
  "sample_product =
     \<lparr>product_name = ''Nut bar'',
      nutrition_per_100g =
        (\<lambda>n. case n of Calories \<Rightarrow> 500 | Protein \<Rightarrow> 20 | Carbs \<Rightarrow> 40 | Fat \<Rightarrow> 30),
      allergens = [''nuts'']\<rparr>"

definition sample_targets :: DailyTargets where
  "sample_targets =
     \<lparr>targets = (\<lambda>n. case n of Calories \<Rightarrow> 2000 | Protein \<Rightarrow> 100 | Carbs \<Rightarrow> 250 | Fat \<Rightarrow> 0),
      restrictions = [''nuts'', ''soy'']\<rparr>"

section \<open>Auxiliary lemmas\<close>

lemma pow2_powr: "pow2 e = 2 powr (real_of_int e)"
  by (simp add: pow2_def powr_real_of_int inverse_eq_divide)

lemma pow2_pos [simp]: "0 < pow2 e"
  by (simp add: pow2_powr)

lemma pow2_le_iff [simp]: "pow2 a \<le> pow2 b \<longleftrightarrow> a \<le> b"
  by (simp add: pow2_powr)

lemma pow2_less_iff [simp]: "pow2 a < pow2 b \<longleftrightarrow> a < b"
  by (simp add: pow2_powr)

lemma pow2_add: "pow2 (a + b) = pow2 a * pow2 b"
  by (simp add: pow2_powr powr_add)

lemma pow2_nat: "0 \<le> e \<Longrightarrow> pow2 e = of_int (2 ^ nat e)"
  by (simp add: pow2_def)

lemma pow2_0 [simp]: "pow2 0 = 1"
  by (simp add: pow2_def)

lemma pow2_shift: "0 \<le> a \<Longrightarrow> pow2 (b + a) = of_int (2 ^ nat a) * pow2 b"
  using pow2_add [of a b] by (simp add: pow2_nat add.commute)

lemma search_ge_from_above:
  "pow2 k \<le> x \<Longrightarrow> k \<le> e \<Longrightarrow> k \<le> binade_search n e x"
proof (induction n arbitrary: e)
  case 0
  then show ?case by simp
next
  case (Suc n)
  show ?case
  proof (cases "x < pow2 e")
    case True
    with Suc.prems have "pow2 k < pow2 e" by linarith
    then have "k \<le> e - 1" by simp
    with Suc.IH [OF Suc.prems(1)] True show ?thesis by simp
  next
    case False
    with Suc.IH [OF Suc.prems(1), of "e + 1"] Suc.prems(2) show ?thesis by simp
  qed
qed

lemma search_ge_from_below:
  "pow2 k \<le> x \<Longrightarrow> e \<le> k \<Longrightarrow> nat (k - e) \<le> n \<Longrightarrow> k \<le> binade_search n e x"
proof (induction n arbitrary: e)
  case 0
  then show ?case by simp
next
  case (Suc n)
  from Suc.prems have ex: "pow2 e \<le> x"
    using pow2_le_iff [of e k] by linarith
  show ?case
  proof (cases "pow2 (e + 1) \<le> x")
    case True
    show ?thesis
    proof (cases "e + 1 \<le> k")
      case True
      with Suc.prems have "nat (k - (e + 1)) \<le> n" by simp
      from Suc.IH [OF Suc.prems(1) True this] ex \<open>pow2 (e + 1) \<le> x\<close> show ?thesis by simp
    next
      case False
      with Suc.prems have "k \<le> e + 1" by simp
      from search_ge_from_above [OF Suc.prems(1) this] ex True show ?thesis by simp
    qed
  next
    case False
    then have "x < pow2 (e + 1)" by simp
    with Suc.prems(1) have "pow2 k < pow2 (e + 1)" by linarith
    then have "k \<le> e" by simp
    with ex False show ?thesis by simp
  qed
qed

lemma search_le_from_below:
  "x < pow2 (k + 1) \<Longrightarrow> e \<le> k \<Longrightarrow> binade_search n e x \<le> k"
proof (induction n arbitrary: e)
  case 0
  then show ?case by simp
next
  case (Suc n)
  show ?case
  proof (cases "x < pow2 e")
    case True
    with Suc.IH [OF Suc.prems(1), of "e - 1"] Suc.prems(2) show ?thesis by simp
  next
    case False
    show ?thesis
    proof (cases "pow2 (e + 1) \<le> x")
      case True
      with Suc.prems(1) have "pow2 (e + 1) < pow2 (k + 1)" by linarith
      then have "e + 1 \<le> k" by simp
      from Suc.IH [OF Suc.prems(1) this] False True show ?thesis by simp
    next
      case False
      with \<open>\<not> x < pow2 e\<close> Suc.prems(2) show ?thesis by simp
    qed
  qed
qed

lemma search_le_from_above:
  "x < pow2 (k + 1) \<Longrightarrow> k \<le> e \<Longrightarrow> nat (e - k) \<le> n \<Longrightarrow> binade_search n e x \<le> k"
proof (induction n arbitrary: e)
  case 0
  then show ?case by simp
next
  case (Suc n)
  show ?case
  proof (cases "x < pow2 e")
    case True
    show ?thesis
    proof (cases "k \<le> e - 1")
      case True
      with Suc.prems have "nat (e - 1 - k) \<le> n" by simp
      from Suc.IH [OF Suc.prems(1) True this] \<open>x < pow2 e\<close> show ?thesis by simp
    next
      case False
      with Suc.prems have "e - 1 \<le> k" by simp
      from search_le_from_below [OF Suc.prems(1) this] True show ?thesis by simp
    qed
  next
    case False
    with Suc.prems(1) have "pow2 e < pow2 (k + 1)" by linarith
    then have ek: "e \<le> k" by simp
    show ?thesis
    proof (cases "pow2 (e + 1) \<le> x")
      case True
      with Suc.prems(1) have "pow2 (e + 1) < pow2 (k + 1)" by linarith
      then have "e + 1 \<le> k" by simp
      from search_le_from_below [OF Suc.prems(1) this] False True show ?thesis by simp
    next
      case False
      with \<open>\<not> x < pow2 e\<close> ek show ?thesis by simp
    qed
  qed
qed

lemma binade_eq:
  assumes "pow2 k \<le> \<bar>x\<bar>" and "\<bar>x\<bar> < pow2 (k + 1)" and "- 1100 \<le> k" and "k \<le> 1100"
  shows "binade x = k"
proof (cases "0 \<le> k")
  case True
  with assms(4) have "nat (k - 0) \<le> 1100" by simp
  from search_ge_from_below [OF assms(1) True this] search_le_from_below [OF assms(2) True, of 1100]
  show ?thesis unfolding binade_def by simp
next
  case False
  then have k0: "k \<le> 0" by simp
  with assms(3) have "nat (0 - k) \<le> 1100" by simp
  from search_le_from_above [OF assms(2) k0 this] search_ge_from_above [OF assms(1) k0, of 1100]
  show ?thesis unfolding binade_def by simp
qed

lemma binade_le:
  assumes "\<bar>x\<bar> < pow2 (k + 1)" and "0 \<le> k"
  shows "binade x \<le> k"
  unfolding binade_def using search_le_from_below [OF assms] .

lemma binade_ge:
  assumes "pow2 k \<le> \<bar>x\<bar>" and "0 \<le> k" and "k \<le> 1100"
  shows "k \<le> binade x"
proof -
  from assms have "nat (k - 0) \<le> 1100" by simp
  from search_ge_from_below [OF assms(1) assms(2) this] show ?thesis
    unfolding binade_def .
qed

lemma search_pow2_le:
  "pow2 e \<le> x \<Longrightarrow> pow2 (binade_search n e x) \<le> x"
  by (induction n arbitrary: e) simp_all

lemma binade_pow2_le: "1 \<le> \<bar>x\<bar> \<Longrightarrow> pow2 (binade x) \<le> \<bar>x\<bar>"
  unfolding binade_def using search_pow2_le [of 0 "\<bar>x\<bar>" 1100] by simp

lemma rhe_le: "y \<le> of_int M \<Longrightarrow> round_half_even y \<le> M"
  unfolding round_half_even_def Let_def by (auto; linarith)

lemma rhe_ge: "of_int M \<le> y \<Longrightarrow> M \<le> round_half_even y"
  unfolding round_half_even_def Let_def by (auto; linarith)

lemma rhe_gt_half: "of_int M + 1 / 2 < y \<Longrightarrow> M + 1 \<le> round_half_even y"
  unfolding round_half_even_def Let_def by (auto; linarith)

lemma round_double_cases:
  fixes x :: real
  defines "q \<equiv> pow2 (max (binade x) (- 1022) - 52)"
  defines "r \<equiv> of_int (round_half_even (x / q)) * q"
  shows "round_double x =
     (if pow2 1024 \<le> \<bar>r\<bar> then (if 0 < x then PosInfinity else NegInfinity)
      else if r = 0 then (if x < 0 then NegZero else Finite 0)
      else Finite r)"
  unfolding round_double_def q_def r_def Let_def ..

lemma pow2_53: "pow2 53 = 2 ^ 53"
  by (simp add: pow2_def)

lemma pow2_inverse: "pow2 e * pow2 (- e) = 1"
  using pow2_add [of e "- e"] by simp

lemma round_double_upper:
  assumes "x \<le> of_int N" and "0 < N" and "N < 2 ^ 53"
  shows "round_double x = NegInfinity \<or> round_double x = NegZero
     \<or> (\<exists>r. round_double x = Finite r \<and> r \<le> of_int N)"
proof -
  define e where "e = max (binade x) (- 1022) - 52"
  define q where "q = pow2 e"
  define r where "r = of_int (round_half_even (x / q)) * q"
  have q: "0 < q" by (simp add: q_def)
  have rd: "round_double x =
     (if pow2 1024 \<le> \<bar>r\<bar> then (if 0 < x then PosInfinity else NegInfinity)
      else if r = 0 then (if x < 0 then NegZero else Finite 0)
      else Finite r)"
    unfolding r_def q_def e_def by (rule round_double_cases)
  show ?thesis
  proof (cases "x \<le> 0")
    case True
    with q have "x / q \<le> of_int 0" by (simp add: divide_le_0_iff)
    then have "round_half_even (x / q) \<le> 0" by (rule rhe_le)
    with q have "r \<le> 0" unfolding r_def by (simp add: mult_le_0_iff)
    with True assms(2) rd show ?thesis by auto
  next
    case False
    then have x: "0 < x" by simp
    with assms have "\<bar>x\<bar> < pow2 (52 + 1)"
      using pow2_53 by (simp add: less_le_trans [of "of_int N" "2 ^ 53"] le_less_trans [of x "of_int N"])
    then have "binade x \<le> 52" by (rule binade_le) simp
    then have e: "e \<le> 0" by (simp add: e_def)
    then have inv: "pow2 (- e) = of_int (2 ^ nat (- e))" by (simp add: pow2_nat)
    have qinv: "q * of_int (2 ^ nat (- e)) = 1"
      unfolding q_def using pow2_inverse [of e] inv by simp
    define M where "M = N * 2 ^ nat (- e)"
    have Mq: "of_int M * q = of_int N"
      unfolding M_def using qinv by (simp add: mult.assoc mult.commute [of q])
    have "x / q \<le> of_int N / q" using assms(1) q by (simp add: divide_right_mono)
    also have "of_int N / q = of_int M" using Mq q by (simp add: field_simps)
    finally have "round_half_even (x / q) \<le> M" by (rule rhe_le)
    then have "of_int (round_half_even (x / q)) * q \<le> of_int M * q"
      using q by (simp add: mult_right_mono)
    with Mq have rN: "r \<le> of_int N" by (simp add: r_def)
    from x q have "of_int 0 \<le> x / q" by simp
    then have "0 \<le> round_half_even (x / q)" by (rule rhe_ge)
    with q have r0: "0 \<le> r" by (simp add: r_def)
    have "of_int N < pow2 1024"
    proof -
      from assms(3) have "(of_int N :: real) < 2 ^ 53"
        by (metis of_int_less_numeral_power_cancel_iff)
      also have "\<dots> = pow2 53" by (simp add: pow2_53)
      also have "\<dots> < pow2 1024" by simp
      finally show ?thesis .
    qed
    with rN r0 have "\<not> pow2 1024 \<le> \<bar>r\<bar>" by simp
    with rd rN x show ?thesis by auto
  qed
qed

lemma round_double_lower:
  assumes "pow2 j \<le> x" and "0 \<le> j" and "j \<le> 1100"
  shows "round_double x = PosInfinity \<or> (\<exists>r. round_double x = Finite r \<and> pow2 j \<le> r)"
proof -
  define b where "b = binade x"
  define q where "q = pow2 (max b (- 1022) - 52)"
  define r where "r = of_int (round_half_even (x / q)) * q"
  have rd: "round_double x =
     (if pow2 1024 \<le> \<bar>r\<bar> then (if 0 < x then PosInfinity else NegInfinity)
      else if r = 0 then (if x < 0 then NegZero else Finite 0)
      else Finite r)"
    unfolding r_def q_def b_def by (rule round_double_cases)
  from assms(2) have "pow2 0 \<le> pow2 j" by (simp del: pow2_0)
  with assms(1) have x1: "1 \<le> x" by simp
  then have ax: "\<bar>x\<bar> = x" by simp
  from assms have jb: "j \<le> b" unfolding b_def by (intro binade_ge) (simp_all add: ax)
  with assms(2) have b0: "0 \<le> b" by simp
  then have q': "q = pow2 (b - 52)" by (simp add: q_def max_def)
  have q: "0 < q" by (simp add: q')
  have bx: "pow2 b \<le> x" unfolding b_def using binade_pow2_le [of x] x1 ax by simp
  have split: "pow2 b = of_int (2 ^ 52) * q"
    unfolding q' using pow2_shift [of 52 "b - 52"] by simp
  with bx q have "of_int (2 ^ 52) \<le> x / q" by (simp add: le_divide_eq)
  then have "2 ^ 52 \<le> round_half_even (x / q)" by (rule rhe_ge)
  then have "of_int (2 ^ 52) * q \<le> of_int (round_half_even (x / q)) * q"
    using q by (simp add: mult_right_mono del: of_int_power of_int_numeral)
  with split have "pow2 b \<le> r" by (simp add: r_def)
  moreover from jb have "pow2 j \<le> pow2 b" by simp
  ultimately have jr: "pow2 j \<le> r" by linarith
  then have "0 < r" using pow2_pos [of j] by linarith
  with rd x1 jr show ?thesis by auto
qed

lemma round_double_in_binade:
  assumes "pow2 k \<le> x" and "x < pow2 (k + 1)" and "- 1022 \<le> k" and "k \<le> 1022"
    and "of_int M + 1 / 2 < x / pow2 (k - 52)"
  shows "\<exists>r. round_double x = Finite r \<and> of_int (M + 1) * pow2 (k - 52) \<le> r"
proof -
  define q where "q = pow2 (k - 52)"
  define r where "r = of_int (round_half_even (x / q)) * q"
  have x0: "0 < x" using assms(1) pow2_pos [of k] by linarith
  then have ax: "\<bar>x\<bar> = x" by simp
  have b: "binade x = k" using assms(1-4) by (intro binade_eq) (simp_all add: ax)
  with assms(3) have qb: "q = pow2 (max (binade x) (- 1022) - 52)" by (simp add: q_def max_def)
  have rd: "round_double x =
     (if pow2 1024 \<le> \<bar>r\<bar> then (if 0 < x then PosInfinity else NegInfinity)
      else if r = 0 then (if x < 0 then NegZero else Finite 0)
      else Finite r)"
    unfolding r_def qb by (rule round_double_cases)
  have q: "0 < q" by (simp add: q_def)
  from assms(5) have "M + 1 \<le> round_half_even (x / q)" unfolding q_def by (rule rhe_gt_half)
  then have "of_int (M + 1) * q \<le> of_int (round_half_even (x / q)) * q"
    using q by (simp add: mult_right_mono del: of_int_add)
  then have lo: "of_int (M + 1) * q \<le> r" by (simp add: r_def)
  have split1: "pow2 (k + 1) = of_int (2 ^ 53) * q"
    unfolding q_def using pow2_shift [of 53 "k - 52"] by (simp add: add.commute)
  with assms(2) q have "x / q \<le> of_int (2 ^ 53)" by (simp add: divide_le_eq)
  then have "round_half_even (x / q) \<le> 2 ^ 53" by (rule rhe_le)
  then have "of_int (round_half_even (x / q)) * q \<le> of_int (2 ^ 53) * q"
    using q by (simp add: mult_right_mono del: of_int_power of_int_numeral)
  with split1 have hi: "r \<le> pow2 (k + 1)" by (simp add: r_def)
  have split0: "pow2 k = of_int (2 ^ 52) * q"
    unfolding q_def using pow2_shift [of 52 "k - 52"] by simp
  with assms(1) q have "of_int (2 ^ 52) \<le> x / q" by (simp add: le_divide_eq)
  then have "2 ^ 52 \<le> round_half_even (x / q)" by (rule rhe_ge)
  then have "of_int (2 ^ 52) * q \<le> of_int (round_half_even (x / q)) * q"
    using q by (simp add: mult_right_mono del: of_int_power of_int_numeral)
  with split0 have "pow2 k \<le> r" by (simp add: r_def)
  then have r0: "0 < r" using pow2_pos [of k] by linarith
  from assms(4) have "pow2 (k + 1) < pow2 1024" by simp
  with hi r0 have "\<not> pow2 1024 \<le> \<bar>r\<bar>" by linarith
  with rd r0 lo show ?thesis by (auto simp add: q_def)
qed

lemma round_double_above_1:
  assumes "1 + 1 / 2 ^ 53 < x"
  shows "round_double x = PosInfinity
     \<or> (\<exists>r. round_double x = Finite r \<and> 1 + 1 / 2 ^ 52 \<le> r)"
proof (cases "x < 2")
  case True
  have q: "pow2 (0 - 52) = 1 / 2 ^ 52" by (simp add: pow2_def)
  have "of_int (2 ^ 52) + 1 / 2 < x / pow2 (0 - 52)"
    unfolding q using assms by (simp add: field_simps)
  moreover have "pow2 0 \<le> x" using assms by simp
  moreover have "x < pow2 (0 + 1)" using True by (simp add: pow2_def)
  ultimately obtain r where "round_double x = Finite r"
    and "of_int (2 ^ 52 + 1) * pow2 (0 - 52) \<le> r"
    using round_double_in_binade [of 0 x "2 ^ 52"] by auto
  then show ?thesis unfolding q by (simp add: field_simps)
next
  case False
  then have "pow2 1 \<le> x" by (simp add: pow2_def)
  from round_double_lower [OF this] show ?thesis
    by (auto simp add: pow2_def intro: order_trans [rotated])
qed

lemma round_double_above_100:
  assumes "100 * (1 + 1 / 2 ^ 52) \<le> y"
  shows "round_double y = PosInfinity \<or> (\<exists>r. round_double y = Finite r \<and> 100 < r)"
proof (cases "y < 128")
  case True
  have q: "pow2 (6 - 52) = 1 / 2 ^ 46" by (simp add: pow2_def)
  have "of_int (100 * 2 ^ 46 + 1) + 1 / 2 < y / pow2 (6 - 52)"
    unfolding q using assms by (simp add: field_simps)
  moreover have "pow2 6 \<le> y" using assms by (simp add: pow2_def field_simps)
  moreover have "y < pow2 (6 + 1)" using True by (simp add: pow2_def)
  ultimately obtain r where "round_double y = Finite r"
    and "of_int (100 * 2 ^ 46 + 1 + 1) * pow2 (6 - 52) \<le> r"
    using round_double_in_binade [of 6 y "100 * 2 ^ 46 + 1"] by auto
  then show ?thesis unfolding q by (simp add: field_simps)
next
  case False
  then have "pow2 7 \<le> y" by (simp add: pow2_def)
  from round_double_lower [OF this] show ?thesis
    by (auto simp add: pow2_def)
qed

lemma exists_binade:
  assumes "0 < x"
  shows "\<exists>k. pow2 k \<le> x \<and> x < pow2 (k + 1)"
proof -
  define k where "k = \<lfloor>log 2 x\<rfloor>"
  have "real_of_int k \<le> log 2 x" and "log 2 x < real_of_int (k + 1)"
    unfolding k_def by linarith+
  then have "2 powr real_of_int k \<le> 2 powr log 2 x"
    and "2 powr log 2 x < 2 powr real_of_int (k + 1)"
    by simp_all
  with assms have "pow2 k \<le> x \<and> x < pow2 (k + 1)"
    by (simp add: pow2_powr)
  then show ?thesis ..
qed

lemma double_grid:
  assumes "0 < m" and "is_double m"
  obtains N k where "1 \<le> N" and "m = of_int N * pow2 (max k (- 1022) - 52)"
    and "pow2 k \<le> m" and "m < pow2 (k + 1)" and "- 1074 \<le> k" and "k \<le> 1023"
proof -
  define q where "q = pow2 (max (binade m) (- 1022) - 52)"
  define r where "r = of_int (round_half_even (m / q)) * q"
  have q: "0 < q" by (simp add: q_def)
  have rd: "round_double m =
     (if pow2 1024 \<le> \<bar>r\<bar> then (if 0 < m then PosInfinity else NegInfinity)
      else if r = 0 then (if m < 0 then NegZero else Finite 0)
      else Finite r)"
    unfolding r_def q_def by (rule round_double_cases)
  with assms have rm: "r = m" and small: "\<not> pow2 1024 \<le> \<bar>r\<bar>"
    unfolding is_double_def by (auto split: if_splits)
  define N where "N = round_half_even (m / q)"
  have mN: "m = of_int N * q" using rm by (simp add: r_def N_def)
  with assms(1) q have "0 < real_of_int N" by (simp add: zero_less_mult_iff)
  then have N1: "1 \<le> N" by simp
  then have "1 * q \<le> of_int N * q" using q by (intro mult_right_mono) simp_all
  with mN have mq: "q \<le> m" by simp
  have "- 1074 \<le> max (binade m) (- 1022) - 52" by simp
  then have "pow2 (- 1074) \<le> q" unfolding q_def by (simp only: pow2_le_iff)
  with mq have lo: "pow2 (- 1074) \<le> m" by linarith
  from small rm assms(1) have hi: "m < pow2 1024" by simp
  from exists_binade [OF assms(1)] obtain k where k: "pow2 k \<le> m" "m < pow2 (k + 1)"
    by blast
  from k(1) hi have "pow2 k < pow2 1024" by linarith
  then have k_hi: "k \<le> 1023" by simp
  from k(2) lo have "pow2 (- 1074) < pow2 (k + 1)" by linarith
  then have k_lo: "- 1074 \<le> k" by simp
  from assms(1) have am: "\<bar>m\<bar> = m" by simp
  have "binade m = k" using k k_lo k_hi by (intro binade_eq) (simp_all add: am)
  with mN have "m = of_int N * pow2 (max k (- 1022) - 52)" by (simp add: q_def)
  with N1 k k_lo k_hi show ?thesis using that [of N k] by blast
qed

lemma double_gap:
  assumes "0 < m" and "m < p" and "is_double m" and "is_double p"
  shows "1 + 1 / 2 ^ 53 < p / m"
proof -
  from assms(1,2) have p0: "0 < p" by simp
  from double_grid [OF assms(1,3)] obtain Nm km where
    m: "m = of_int Nm * pow2 (max km (- 1022) - 52)"
    and km: "pow2 km \<le> m" "m < pow2 (km + 1)"
    by blast
  from double_grid [OF p0 assms(4)] obtain Np kp where
    p: "p = of_int Np * pow2 (max kp (- 1022) - 52)"
    and kp: "pow2 kp \<le> p" "p < pow2 (kp + 1)"
    by blast
  define em where "em = max km (- 1022) - 52"
  define ep where "ep = max kp (- 1022) - 52"
  define qm where "qm = pow2 em"
  have qm: "0 < qm" by (simp add: qm_def)
  from km(1) assms(2) kp(2) have "pow2 km < pow2 (kp + 1)" by linarith
  then have "km \<le> kp" by simp
  then have d: "0 \<le> ep - em" by (simp add: em_def ep_def)
  have "pow2 ep = of_int (2 ^ nat (ep - em)) * qm"
    unfolding qm_def using pow2_shift [OF d, of em] by simp
  with p have p': "p = of_int (Np * 2 ^ nat (ep - em)) * qm"
    by (simp add: ep_def)
  from m have m': "m = of_int Nm * qm" by (simp add: qm_def em_def)
  define Z where "Z = Np * 2 ^ nat (ep - em) - Nm"
  have diff: "p - m = of_int Z * qm"
    unfolding Z_def p' m' by (simp add: algebra_simps)
  from diff assms(2) have "0 < real_of_int Z * qm" by simp
  with qm have "0 < real_of_int Z" by (simp add: zero_less_mult_iff)
  then have "1 \<le> Z" by simp
  then have "1 * qm \<le> of_int Z * qm" using qm by (intro mult_right_mono) simp_all
  with diff have gap: "qm \<le> p - m" by simp
  have "km + 1 \<le> em + 53" by (simp add: em_def)
  then have "pow2 (km + 1) \<le> pow2 (em + 53)" by (simp only: pow2_le_iff)
  also have "pow2 (em + 53) = 2 ^ 53 * qm"
    unfolding qm_def using pow2_shift [of 53 em] by simp
  finally have "m < 2 ^ 53 * qm" using km(2) by linarith
  with gap have "m < 2 ^ 53 * (p - m)" by simp
  then have "m * (1 + 1 / 2 ^ 53) < p" by (simp add: field_simps)
  with assms(1) show ?thesis by (simp add: field_simps)
qed

lemma times_100_upper:
  assumes "v = NaN \<or> v = NegInfinity \<or> v = NegZero \<or> (\<exists>r. v = Finite r \<and> r \<le> 1)"
  shows "\<not> js_lt (Finite 100) (js_times v (Finite 100))"
proof -
  consider "v = NaN" | "v = NegInfinity" | "v = NegZero" | r where "v = Finite r" "r \<le> 1"
    using assms by blast
  then show ?thesis
  proof cases
    case 4
    show ?thesis
    proof (cases "r = 0")
      case True
      with 4 show ?thesis by (simp add: js_times_def js_signed_zero_def js_lt_def)
    next
      case False
      from 4(2) have "r * 100 \<le> of_int 100" by simp
      from round_double_upper [OF this] False 4(1) show ?thesis
        by (auto simp add: js_times_def js_lt_def)
    qed
  qed (simp_all add: js_times_def js_signed_zero_def js_signed_inf_def js_lt_def)
qed

lemma div_upper:
  assumes "js_le p m" and "js_lt (Finite 0) m"
  shows "js_div p m = NaN \<or> js_div p m = NegInfinity \<or> js_div p m = NegZero
     \<or> (\<exists>r. js_div p m = Finite r \<and> r \<le> 1)"
proof (cases m)
  case (Finite mv)
  with assms(2) have mv: "0 < mv" by (simp add: js_lt_def)
  show ?thesis
  proof (cases p)
    case (Finite pv)
    with assms(1) \<open>m = Finite mv\<close> have le: "pv \<le> mv" by (simp add: js_le_def)
    show ?thesis
    proof (cases "pv = 0")
      case True
      with Finite \<open>m = Finite mv\<close> mv show ?thesis
        by (simp add: js_div_def js_signed_zero_def)
    next
      case False
      from le mv have "pv / mv \<le> of_int 1" by (simp add: divide_le_eq)
      from round_double_upper [OF this] False Finite \<open>m = Finite mv\<close> mv show ?thesis
        by (auto simp add: js_div_def)
    qed
  qed (use Finite assms(1) mv in
      \<open>simp_all add: js_div_def js_le_def js_signed_zero_def js_signed_inf_def\<close>)
next
  case PosInfinity
  then show ?thesis
    by (cases p) (simp_all add: js_div_def js_signed_zero_def js_signed_inf_def)
qed (use assms(2) in \<open>simp_all add: js_lt_def\<close>)

lemma width_not_above_100:
  assumes "js_le p m" and "js_lt (Finite 0) m"
  shows "\<not> js_lt (Finite 100) (js_times (js_div p m) (Finite 100))"
  using div_upper [OF assms] by (rule times_100_upper)

lemma width_above_100:
  assumes "js_lt m p" and "js_lt (Finite 0) m" and "js_is_double p" and "js_is_double m"
  shows "js_lt (Finite 100) (js_times (js_div p m) (Finite 100))"
proof (cases m)
  case (Finite mv)
  with assms(2,4) have mv: "0 < mv" "is_double mv" by (simp_all add: js_lt_def)
  show ?thesis
  proof (cases p)
    case (Finite pv)
    with assms(1,3) \<open>m = Finite mv\<close> have pv: "mv < pv" "is_double pv"
      by (simp_all add: js_lt_def)
    from double_gap [OF mv(1) pv(1) mv(2) pv(2)] have "1 + 1 / 2 ^ 53 < pv / mv" .
    from round_double_above_1 [OF this]
    consider "round_double (pv / mv) = PosInfinity"
      | r where "round_double (pv / mv) = Finite r" "1 + 1 / 2 ^ 52 \<le> r"
      by blast
    then show ?thesis
    proof cases
      case 1
      with Finite \<open>m = Finite mv\<close> mv pv show ?thesis
        by (simp add: js_div_def js_times_def js_signed_inf_def js_lt_def)
    next
      case 2
      have "(0::real) < 1 + 1 / 2 ^ 52" by simp
      with 2(2) have r0: "r \<noteq> 0" by linarith
      from 2(2) have "100 * (1 + 1 / 2 ^ 52) \<le> r * 100" by simp
      from round_double_above_100 [OF this] 2(1) r0 Finite \<open>m = Finite mv\<close> mv pv
      show ?thesis
        by (auto simp add: js_div_def js_times_def js_lt_def)
    qed
  qed (use Finite assms(1) mv in
      \<open>simp_all add: js_div_def js_times_def js_lt_def js_signed_inf_def\<close>)
next
  case PosInfinity
  with assms(1) show ?thesis by (cases p) (simp_all add: js_lt_def)
qed (use assms(2) in \<open>simp_all add: js_lt_def\<close>)

lemma round_double_eval:
  assumes "pow2 k \<le> \<bar>x\<bar>" and "\<bar>x\<bar> < pow2 (k + 1)" and "- 1022 \<le> k" and "k \<le> 1023"
  shows "round_double x =
     (if pow2 1024 \<le> \<bar>of_int (round_half_even (x / pow2 (k - 52))) * pow2 (k - 52)\<bar>
      then (if 0 < x then PosInfinity else NegInfinity)
      else if of_int (round_half_even (x / pow2 (k - 52))) * pow2 (k - 52) = 0
      then (if x < 0 then NegZero else Finite 0)
      else Finite (of_int (round_half_even (x / pow2 (k - 52))) * pow2 (k - 52)))"
proof -
  have "binade x = k" using assms by (intro binade_eq) simp_all
  with assms(3) have "max (binade x) (- 1022) = k" by simp
  then show ?thesis using round_double_cases [of x] by simp
qed

lemma round_double_finite_bound: "round_double x = Finite r \<Longrightarrow> \<bar>r\<bar> < pow2 1024"
  using round_double_cases [of x] by (auto split: if_splits)

lemma round_double_overflow:
  assumes "pow2 1024 \<le> x"
  shows "round_double x = PosInfinity"
  using round_double_lower [OF assms] round_double_finite_bound [of x] by fastforce

lemma slice_last_length: "length (slice_last n xs) = min n (length xs)"
  by (simp add: slice_last_def)

lemma slice_last_suffix: "take (length xs - n) xs @ slice_last n xs = xs"
  by (simp add: slice_last_def)

lemma slice_last_nonempty:
  assumes "0 < n" and "xs \<noteq> []"
  shows "slice_last n xs \<noteq> []"
proof -
  from assms(2) have "0 < length xs" by simp
  with assms(1) have "length xs - n < length xs" by arith
  then show ?thesis by (simp add: slice_last_def)
qed

lemma Math_round_bounds:
  "real_of_int (Math_round x) \<le> x + 1 / 2 \<and> x - 1 / 2 < real_of_int (Math_round x)"
  unfolding Math_round_def by linarith

lemma Math_round_ge_100: "100 \<le> x \<Longrightarrow> 100 \<le> Math_round x"
  unfolding Math_round_def by linarith

lemma quantity_step_range:
  "0 \<le> q \<Longrightarrow> q \<le> 1000 \<Longrightarrow> 0 \<le> quantity_step q e \<and> quantity_step q e \<le> 1000"
  by (cases e) (simp_all add: Let_def split: option.splits)

lemma quantity_foldl_range:
  "0 \<le> q \<Longrightarrow> q \<le> 1000 \<Longrightarrow>
   0 \<le> foldl quantity_step q evs \<and> foldl quantity_step q evs \<le> 1000"
proof (induction evs arbitrary: q)
  case Nil
  then show ?case by simp
next
  case (Cons e evs)
  from Cons.prems have "0 \<le> quantity_step q e \<and> quantity_step q e \<le> 1000"
    by (rule quantity_step_range)
  then show ?case using Cons.IH by simp
qed

lemma dayOptions_nth: "i < length dayOptions \<Longrightarrow> dayOptions ! i \<in> {3, 7, 14}"
proof -
  assume "i < length dayOptions"
  then have "i = 0 \<or> i = 1 \<or> i = 2" by (auto simp: dayOptions_def)
  then show ?thesis by (auto simp: dayOptions_def)
qed

lemma mealOptions_nth:
  "i < length mealOptions \<Longrightarrow>
   mealOptions ! i \<in> {''3_main'', ''3_plus_2_snacks'', ''2_plus_1_intermediate''}"
proof -
  assume "i < length mealOptions"
  then have "i = 0 \<or> i = 1 \<or> i = 2" by (auto simp: mealOptions_def)
  then show ?thesis by (auto simp: mealOptions_def)
qed

lemma menus_step_config:
  "config_in_domain (generateConfig s) \<Longrightarrow> config_in_domain (generateConfig (menus_step s e))"
proof (cases e)
  case (PressDay i)
  assume "config_in_domain (generateConfig s)"
  then show ?thesis using PressDay dayOptions_nth [of i]
    by (simp add: config_in_domain_def)
next
  case (PressMeals i)
  assume "config_in_domain (generateConfig s)"
  then show ?thesis using PressMeals mealOptions_nth [of i]
    by (simp add: config_in_domain_def)
next
  case (LoadMenus outcome)
  assume "config_in_domain (generateConfig s)"
  then show ?thesis using LoadMenus
    by (simp add: loadMenus_def split: awaited.splits)
qed (simp_all add: config_in_domain_def)

lemma menus_step_posted:
  "config_in_domain (generateConfig s) \<Longrightarrow>
   \<forall>r \<in> set (posted s). config_in_domain (request_config r) \<Longrightarrow>
   \<forall>r \<in> set (posted (menus_step s e)). config_in_domain (request_config r)"
  by (cases e) (auto simp add: loadMenus_def split: awaited.splits)

lemma menus_step_inv: "screen_inv s \<Longrightarrow> screen_inv (menus_step s e)"
  unfolding screen_inv_def using menus_step_config menus_step_posted by blast

lemma menus_foldl_inv: "screen_inv s \<Longrightarrow> screen_inv (foldl menus_step s evs)"
  by (induction evs arbitrary: s) (simp_all add: menus_step_inv)

lemma initial_screen_inv: "screen_inv initial_screen"
  by (simp add: screen_inv_def initial_screen_def config_in_domain_def)

lemma score_antimono:
  "sum_list (map pen vs) \<le> sum_list (map pen ws) \<Longrightarrow>
   score_of_violations pen ws \<le> score_of_violations pen vs"
  by (simp add: score_of_violations_def)

lemma score_range: "0 \<le> score_of_violations pen vs \<and> score_of_violations pen vs \<le> 100"
  by (simp add: score_of_violations_def)

lemma alerts_more_thresholds:
  "analyze_alerts (cfg\<lparr>thresholds := thresholds cfg @ [(n, th)]\<rparr>) product q t
     = analyze_alerts cfg product q t
       @ (if analyze_contribution product q t n > th then [n] else [])"
  by (simp add: analyze_alerts_def)

lemma conflicts_more_allergens:
  fixes pen :: "violation \<Rightarrow> nat"
  shows "sum_list (map pen (map Conflict (analyze_conflicts product t)))
     \<le> sum_list (map pen
          (map Conflict (analyze_conflicts (product\<lparr>allergens := a # allergens product\<rparr>) t)))"
  by (auto simp add: analyze_conflicts_def)

lemma contribution_allergens:
  "analyze_contribution (product\<lparr>allergens := xs\<rparr>) q t n = analyze_contribution product q t n"
  by (simp add: analyze_contribution_def)

lemma alerts_allergens:
  "analyze_alerts cfg (product\<lparr>allergens := xs\<rparr>) q t = analyze_alerts cfg product q t"
  by (simp add: analyze_alerts_def contribution_allergens)

section \<open>The claims\<close>

text \<open>
  C1, as stated: colour and icon of a score always belong to the same tier of the four-tier
  table. At score 30 the colour is the critical one while the icon is the alert triangle in
  the warning colour, the very icon of score 50.
\<close>

theorem C1_tier_divergence_at_30:
  "spec_tier 30 = Some Critical
   \<and> color_tier (getCompatibilityColor 30) = Some Critical
   \<and> color_tier (icon_color (getCompatibilityIcon 30)) = Some Warning
   \<and> getCompatibilityIcon 30 = getCompatibilityIcon 50
   \<and> spec_tier 50 = Some Warning"
  by (simp add: spec_tier_def color_tier_def getCompatibilityColor_def getCompatibilityIcon_def)

text \<open>
  C1, amended: for every score in \<open>[0,100]\<close> the colour follows the four-tier table; the icon
  has three cases (check mark from 80, info from 60, alert triangle below 60); the icon's
  colour is the colour of the score for every score from 40 on, so 79 is caution and 80 is
  good for both; below 40 the colour is the critical one and the icon stays the alert
  triangle in the warning colour.
\<close>

theorem C1_color_four_tiers_icon_three:
  assumes "0 \<le> score" and "score \<le> 100"
  shows "color_tier (getCompatibilityColor score) = spec_tier score
    \<and> icon_kind (getCompatibilityIcon score) =
          (if 80 \<le> score then CheckCircle else if 60 \<le> score then Info else AlertTriangle)
    \<and> (40 \<le> score \<longrightarrow>
          icon_color (getCompatibilityIcon score) = getCompatibilityColor score
          \<and> color_tier (icon_color (getCompatibilityIcon score)) = spec_tier score)
    \<and> (score < 40 \<longrightarrow>
          getCompatibilityColor score = ''#dc2626''
          \<and> getCompatibilityIcon score = Icon AlertTriangle 20 ''#ef4444'')"
  using assms
  by (simp add: spec_tier_def color_tier_def getCompatibilityColor_def
      getCompatibilityIcon_def)

theorem C1_color_four_tiers_icon_three_witness:
  "((0::real) \<le> 79 \<and> (79::real) \<le> 100 \<and> (40::real) \<le> 79
    \<and> color_tier (getCompatibilityColor 79) = Some Caution
    \<and> color_tier (icon_color (getCompatibilityIcon 79)) = Some Caution)
   \<and> ((0::real) \<le> 80 \<and> (80::real) \<le> 100 \<and> (40::real) \<le> 80
    \<and> color_tier (getCompatibilityColor 80) = Some Good
    \<and> color_tier (icon_color (getCompatibilityIcon 80)) = Some Good)
   \<and> ((0::real) \<le> 30 \<and> (30::real) \<le> 100 \<and> (30::real) < 40
    \<and> getCompatibilityColor 30 = ''#dc2626''
    \<and> getCompatibilityIcon 30 = Icon AlertTriangle 20 ''#ef4444'')"
  using C1_color_four_tiers_icon_three [of 79] C1_color_four_tiers_icon_three [of 80]
    C1_color_four_tiers_icon_three [of 30]
  by (simp add: spec_tier_def)

text \<open>
  C2, as stated: the chart data is \<open>null\<close> exactly when the sequence of daily records is
  empty. For a statistics object whose \<open>dailyBreakdown\<close> is the empty sequence the memo
  returns a series (with no label and no number), not \<open>null\<close>.
\<close>

theorem C2_empty_breakdown_gives_series:
  "dailyBreakdown (sample_statistics (Some [])) = Some []
   \<and> chartData (\<lambda>d. d) (Some (sample_statistics (Some []))) \<noteq> None
   \<and> map_option (\<lambda>cd. labels (line cd))
        (chartData (\<lambda>d. d) (Some (sample_statistics (Some [])))) = Some []"
  by (simp add: chartData_def slice_last_def caloriesData_def sample_statistics_def)

text \<open>
  C2, amended: the chart data is \<open>null\<close> if and only if the statistics object or its
  \<open>dailyBreakdown\<close> sequence is absent; for every sequence that is present, empty or not,
  it is a series, with as many labels as the sequence has records, at most 7 (none for the
  empty sequence).
\<close>

theorem C2_null_iff_breakdown_absent:
  "(chartData weekdayShort statistics = None)
     = (statistics = None \<or> (\<exists>st. statistics = Some st \<and> dailyBreakdown st = None))
   \<and> (\<forall>st records. statistics = Some st \<and> dailyBreakdown st = Some records \<longrightarrow>
         (\<exists>cd. chartData weekdayShort statistics = Some cd
            \<and> length (labels (line cd)) = min 7 (length records)))"
  by (cases statistics)
    (auto simp add: chartData_def Let_def slice_last_length split: option.splits)

theorem C2_null_iff_breakdown_absent_witness:
  "dailyBreakdown (sample_statistics (Some [])) = Some []
   \<and> (\<exists>cd. chartData (\<lambda>d. d) (Some (sample_statistics (Some []))) = Some cd
        \<and> length (labels (line cd)) = 0)
   \<and> dailyBreakdown (sample_statistics None) = None
   \<and> chartData (\<lambda>d. d) (Some (sample_statistics None)) = None"
  using C2_null_iff_breakdown_absent [of "\<lambda>d. d" "Some (sample_statistics (Some []))"]
    C2_null_iff_breakdown_absent [of "\<lambda>d. d" "Some (sample_statistics None)"]
  by (simp add: sample_statistics_def)

text \<open>
  C3, as stated: a fetch of the menus that fails with a network error leaves the menus state
  at its previous value. With one menu loaded, the failing fetch leaves the empty list.
\<close>

theorem C3_failed_fetch_discards_menus:
  "menus (initial_screen\<lparr>menus := [sample_menu]\<rparr>) = [sample_menu]
   \<and> menus (loadMenus Threw (initial_screen\<lparr>menus := [sample_menu]\<rparr>)) = []
   \<and> menus (loadMenus Threw (initial_screen\<lparr>menus := [sample_menu]\<rparr>))
       \<noteq> menus (initial_screen\<lparr>menus := [sample_menu]\<rparr>)"
  by (simp add: loadMenus_def)

text \<open>
  C3, amended: when the fetch of the menus fails with a network or transport error, the
  menus state is set to the empty list (the previously loaded list is discarded) and the
  loading flag is cleared; the configuration, the custom request text and the posted bodies
  are left unchanged.
\<close>

theorem C3_failed_fetch_resets_menus:
  "menus (loadMenus Threw s) = []
   \<and> isLoading (loadMenus Threw s) = False
   \<and> generateConfig (loadMenus Threw s) = generateConfig s
   \<and> customRequest (loadMenus Threw s) = customRequest s
   \<and> posted (loadMenus Threw s) = posted s"
  by (simp add: loadMenus_def)

text \<open>
  C4: the Daily Contribution section shows two bars, calories and protein. The width of each
  bar is \<open>min(percent, 100)\<close> of its own percent, so never above 100 (and not below 0 for
  a percent that is not negative), while the number beside the bar is the rounded,
  unclamped percent: within one half of the true value, and at least 100 where the percent
  exceeds 100 and the bar stays at 100.
\<close>

theorem C4_bar_clamped_text_unclamped:
  "\<exists>c p. dailyContributionSection user_analysis = [c, p]
     \<and> contribution_label c = ''Calories''
     \<and> contribution_fill_width c
          = min (calories_percent (daily_contribution user_analysis)) 100
     \<and> contribution_percent_text c
          = Math_round (calories_percent (daily_contribution user_analysis))
     \<and> contribution_label p = ''Protein''
     \<and> contribution_fill_width p
          = min (protein_percent (daily_contribution user_analysis)) 100
     \<and> contribution_percent_text p
          = Math_round (protein_percent (daily_contribution user_analysis))
     \<and> (\<forall>(item, percent) \<in>
            {(c, calories_percent (daily_contribution user_analysis)),
             (p, protein_percent (daily_contribution user_analysis))}.
           contribution_fill_width item \<le> 100
         \<and> (0 \<le> percent \<longrightarrow> 0 \<le> contribution_fill_width item)
         \<and> (percent \<le> 100 \<longrightarrow> contribution_fill_width item = percent)
         \<and> real_of_int (contribution_percent_text item) \<le> percent + 1 / 2
         \<and> percent - 1 / 2 < real_of_int (contribution_percent_text item)
         \<and> (100 < percent \<longrightarrow> contribution_fill_width item = 100
                \<and> 100 \<le> contribution_percent_text item))"
  using Math_round_bounds Math_round_ge_100
  by (simp add: dailyContributionSection_def)

theorem C4_bar_clamped_text_unclamped_witness:
  "calories_percent (daily_contribution sample_analysis) = 150
   \<and> protein_percent (daily_contribution sample_analysis) = 30
   \<and> dailyContributionSection sample_analysis
       = [\<lparr>contribution_label = ''Calories'', contribution_fill_width = 100,
            contribution_percent_text = 150\<rparr>,
          \<lparr>contribution_label = ''Protein'', contribution_fill_width = 30,
            contribution_percent_text = 30\<rparr>]"
  using C4_bar_clamped_text_unclamped [of sample_analysis]
  by (simp add: dailyContributionSection_def sample_analysis_def Math_round_def)

text \<open>
  C5: for every non-empty sequence of daily records the line and bar series are built from
  the last \<open>min(7, length)\<close> records in their original order (a suffix of the sequence),
  and the labels and the numbers of each series are equally many, at most 7.
\<close>

theorem C5_series_from_last_seven:
  assumes "dailyBreakdown st = Some records" and "records \<noteq> []"
  shows "\<exists>cd ld bd. chartData weekdayShort (Some st) = Some cd
     \<and> datasets (line cd) = [ld] \<and> datasets (bar cd) = [bd]
     \<and> labels (line cd) = map (\<lambda>day. weekdayShort (date day)) (slice_last 7 records)
     \<and> labels (bar cd) = labels (line cd)
     \<and> data ld = map (\<lambda>day. orZero (calories day)) (slice_last 7 records)
     \<and> data bd = data ld
     \<and> take (length records - 7) records @ slice_last 7 records = records
     \<and> length (slice_last 7 records) = min 7 (length records)
     \<and> length (labels (line cd)) = length (data ld)
     \<and> length (labels (bar cd)) = length (data bd)
     \<and> length (data ld) \<le> 7 \<and> 0 < length (data ld)"
  using assms
  by (simp add: chartData_def Let_def caloriesData_def slice_last_length slice_last_suffix
      slice_last_nonempty)

theorem C5_series_from_last_seven_witness:
  "dailyBreakdown (sample_statistics (Some sample_records)) = Some sample_records
   \<and> sample_records \<noteq> [] \<and> length sample_records = 8
   \<and> (\<exists>cd ld. chartData (\<lambda>d. d) (Some (sample_statistics (Some sample_records))) = Some cd
        \<and> datasets (line cd) = [ld]
        \<and> labels (line cd) = [''d2'', ''d3'', ''d4'', ''d5'', ''d6'', ''d7'', ''d8'']
        \<and> data ld = [2000, 0, 2100, 1900, 2200, 2050, 1950])"
  using C5_series_from_last_seven [of "sample_statistics (Some sample_records)" sample_records
      "\<lambda>d. d"]
  by (auto simp add: sample_statistics_def sample_records_def sample_day_def slice_last_def
      orZero_def)

text \<open>
  C6: a daily record whose calories, protein, carbs or fats field is missing contributes 0
  at its own position of the derived array; no record is dropped (every derived array is
  as long as the sequence of the last seven days) and the derivation does not fail.
\<close>

theorem C6_missing_field_is_zero:
  assumes "dailyBreakdown st = Some records"
    and "i < length (slice_last 7 records)"
  shows "\<exists>cd ld bd. chartData weekdayShort (Some st) = Some cd
     \<and> datasets (line cd) = [ld] \<and> datasets (bar cd) = [bd]
     \<and> length (data ld) = length (slice_last 7 records)
     \<and> length (data bd) = length (slice_last 7 records)
     \<and> length (labels (line cd)) = length (slice_last 7 records)
     \<and> labels (line cd) ! i = weekdayShort (date (slice_last 7 records ! i))
     \<and> (calories (slice_last 7 records ! i) = None \<longrightarrow> data ld ! i = 0 \<and> data bd ! i = 0)
     \<and> (protein_g (slice_last 7 records ! i) = None
          \<longrightarrow> proteinData (slice_last 7 records) ! i = 0)
     \<and> (carbs_g (slice_last 7 records ! i) = None
          \<longrightarrow> carbsData (slice_last 7 records) ! i = 0)
     \<and> (fats_g (slice_last 7 records ! i) = None
          \<longrightarrow> fatsData (slice_last 7 records) ! i = 0)
     \<and> length (proteinData (slice_last 7 records)) = length (slice_last 7 records)
     \<and> length (carbsData (slice_last 7 records)) = length (slice_last 7 records)
     \<and> length (fatsData (slice_last 7 records)) = length (slice_last 7 records)"
  using assms
  by (simp add: chartData_def Let_def caloriesData_def proteinData_def carbsData_def
      fatsData_def orZero_def)

theorem C6_missing_field_is_zero_witness:
  "dailyBreakdown (sample_statistics (Some sample_records)) = Some sample_records
   \<and> 1 < length (slice_last 7 sample_records)
   \<and> calories (slice_last 7 sample_records ! 1) = None
   \<and> protein_g (slice_last 7 sample_records ! 1) = None
   \<and> (\<exists>cd ld. chartData (\<lambda>d. d) (Some (sample_statistics (Some sample_records))) = Some cd
        \<and> datasets (line cd) = [ld]
        \<and> length (data ld) = 7 \<and> data ld ! 1 = 0 \<and> labels (line cd) ! 1 = ''d3'')
   \<and> proteinData (slice_last 7 sample_records) ! 1 = 0"
  using C6_missing_field_is_zero [of "sample_statistics (Some sample_records)" sample_records
      1 "\<lambda>d. d"]
  by (auto simp add: sample_statistics_def sample_records_def sample_day_def slice_last_def
      orZero_def proteinData_def)

text \<open>
  C7: for every achievement the section renders (the first five of a list that is not
  empty), the fill of its card is as wide as \<open>(progress / max_progress) * 100\<close> percent,
  computed in double arithmetic with no clamp. Under the invariant (\<open>max_progress > 0\<close> and
  \<open>progress <= max_progress\<close>) the width never exceeds 100; when \<open>progress\<close> exceeds a
  positive \<open>max_progress\<close> the width exceeds 100 and is rendered as it is. The second part
  is about doubles, which every number of the source is.
\<close>

theorem C7_achievement_width_unclamped:
  assumes "achievements st = Some as" and "as \<noteq> []"
  shows "\<exists>cards. achievementsSection (Some st) = Some cards
     \<and> length cards = min 5 (length as)
     \<and> (\<forall>i < length cards.
           card_title (cards ! i) = title (as ! i)
         \<and> card_description (cards ! i) = description (as ! i)
         \<and> card_fill_width (cards ! i)
             = js_times (js_div (progress (as ! i)) (max_progress (as ! i))) (Finite 100)
         \<and> (js_lt (Finite 0) (max_progress (as ! i))
              \<and> js_le (progress (as ! i)) (max_progress (as ! i))
             \<longrightarrow> \<not> js_lt (Finite 100) (card_fill_width (cards ! i)))
         \<and> (js_lt (Finite 0) (max_progress (as ! i))
              \<and> js_lt (max_progress (as ! i)) (progress (as ! i))
              \<and> js_is_double (progress (as ! i)) \<and> js_is_double (max_progress (as ! i))
             \<longrightarrow> js_lt (Finite 100) (card_fill_width (cards ! i))))"
proof -
  define cards where "cards = map achievementCard (take 5 as)"
  from assms have rendered: "achievementsSection (Some st) = Some cards"
    by (simp add: achievementsSection_def cards_def)
  have len: "length cards = min 5 (length as)"
    by (simp add: cards_def min.commute)
  have each: "card_title (cards ! i) = title (as ! i)
         \<and> card_description (cards ! i) = description (as ! i)
         \<and> card_fill_width (cards ! i)
             = js_times (js_div (progress (as ! i)) (max_progress (as ! i))) (Finite 100)
         \<and> (js_lt (Finite 0) (max_progress (as ! i))
              \<and> js_le (progress (as ! i)) (max_progress (as ! i))
             \<longrightarrow> \<not> js_lt (Finite 100) (card_fill_width (cards ! i)))
         \<and> (js_lt (Finite 0) (max_progress (as ! i))
              \<and> js_lt (max_progress (as ! i)) (progress (as ! i))
              \<and> js_is_double (progress (as ! i)) \<and> js_is_double (max_progress (as ! i))
             \<longrightarrow> js_lt (Finite 100) (card_fill_width (cards ! i)))"
    if "i < length cards" for i
  proof -
    from that have "cards ! i = achievementCard (as ! i)" by (simp add: cards_def)
    then have card: "card_title (cards ! i) = title (as ! i)"
      "card_description (cards ! i) = description (as ! i)"
      "card_fill_width (cards ! i)
         = js_times (js_div (progress (as ! i)) (max_progress (as ! i))) (Finite 100)"
      by (simp_all add: achievementCard_def)
    show ?thesis
      unfolding card
      using width_not_above_100 [of "progress (as ! i)" "max_progress (as ! i)"]
        width_above_100 [of "max_progress (as ! i)" "progress (as ! i)"]
      by blast
  qed
  from rendered len each show ?thesis by blast
qed

theorem C7_achievement_width_unclamped_witness:
  "achievements (sample_statistics None) = Some sample_achievements
   \<and> sample_achievements \<noteq> []
   \<and> map_option (map card_fill_width) (achievementsSection (Some (sample_statistics None)))
       = Some [Finite 60, Finite 120, Finite (7 + 1 / 2 ^ 50), PosInfinity]
   \<and> js_lt (Finite 0) (Finite 5) \<and> js_le (Finite 3) (Finite 5)
   \<and> \<not> js_lt (Finite 100) (Finite 60)
   \<and> js_lt (Finite 0) (Finite 10) \<and> js_lt (Finite 10) (Finite 12)
   \<and> js_is_double (Finite 12) \<and> js_is_double (Finite 10)
   \<and> js_lt (Finite 100) (Finite 120)"
  using C7_achievement_width_unclamped [of "sample_statistics None" sample_achievements]
    round_double_eval [of "- 1" "3 / 5"]
    round_double_eval [of 5 "5404319552844595 / 9007199254740992 * 100"]
    round_double_eval [of 0 "12 / 10"]
    round_double_eval [of 6 "5404319552844595 / 4503599627370496 * 100"]
    round_double_eval [of "- 4" "7 / 100"]
    round_double_eval [of 2 "1261007895663739 / 18014398509481984 * 100"]
    round_double_eval [of 3 12] round_double_eval [of 3 10]
  by (simp add: sample_statistics_def sample_achievements_def achievementsSection_def
      achievementCard_def js_div_def js_times_def js_lt_def js_le_def is_double_def
      js_signed_inf_def pow2_def round_half_even_def Let_def)

text \<open>
  C8: the compatibility score starts at 100, loses the configured penalty of each violation
  and is floored at 0, so it lies in \<open>[0,100]\<close>; one more violation (a triggered alert or
  a conflict, anywhere among the others) never raises it. For \<open>analyze\<close>: one more entry
  in the threshold table, or one more allergen of the product, with all else the same,
  never raises the score.
\<close>

theorem C8_score_monotone_in_violations:
  "score_of_violations pen [] = 100
   \<and> 0 \<le> analyze_score cfg product q t \<and> analyze_score cfg product q t \<le> 100
   \<and> score_of_violations pen (xs @ v # ys)
       = max 0 (100 - int (sum_list (map pen (xs @ ys))) - int (pen v))
   \<and> score_of_violations pen (xs @ v # ys) \<le> score_of_violations pen (xs @ ys)
   \<and> analyze_score (cfg\<lparr>thresholds := thresholds cfg @ [(n, th)]\<rparr>) product q t
       \<le> analyze_score cfg product q t
   \<and> analyze_score cfg (product\<lparr>allergens := a # allergens product\<rparr>) q t
       \<le> analyze_score cfg product q t"
proof -
  have 1: "score_of_violations pen [] = 100"
    by (simp add: score_of_violations_def)
  have 2: "0 \<le> analyze_score cfg product q t \<and> analyze_score cfg product q t \<le> 100"
    by (simp add: analyze_score_def score_range)
  have 3: "score_of_violations pen (xs @ v # ys)
       = max 0 (100 - int (sum_list (map pen (xs @ ys))) - int (pen v))"
    by (simp add: score_of_violations_def)
  have 4: "score_of_violations pen (xs @ v # ys) \<le> score_of_violations pen (xs @ ys)"
    by (rule score_antimono) simp
  have 5: "analyze_score (cfg\<lparr>thresholds := thresholds cfg @ [(n, th)]\<rparr>) product q t
       \<le> analyze_score cfg product q t"
    unfolding analyze_score_def analyze_violations_def
    by (simp add: alerts_more_thresholds score_antimono)
  have 6: "analyze_score cfg (product\<lparr>allergens := a # allergens product\<rparr>) q t
       \<le> analyze_score cfg product q t"
    unfolding analyze_score_def analyze_violations_def
    using conflicts_more_allergens [of "penalty cfg" product t a]
    by (simp add: alerts_allergens score_antimono)
  from 1 2 3 4 5 6 show ?thesis by blast
qed

theorem C8_score_monotone_in_violations_witness:
  "analyze_score sample_config sample_product 150 sample_targets = 45
   \<and> analyze_score (sample_config\<lparr>thresholds := thresholds sample_config @ [(Protein, 25)]\<rparr>)
       sample_product 150 sample_targets = 30
   \<and> analyze_score sample_config
       (sample_product\<lparr>allergens := ''soy'' # allergens sample_product\<rparr>) 150 sample_targets = 5
   \<and> score_of_violations (penalty sample_config)
       [TriggeredAlert Calories, Conflict ''nuts'', Conflict ''soy'', Conflict ''milk''] = 0"
  using C8_score_monotone_in_violations [of "penalty sample_config" sample_config
      sample_product 150 sample_targets "[]" "TriggeredAlert Protein" "[]" Protein 25 "''soy''"]
  by (simp add: analyze_score_def analyze_violations_def analyze_alerts_def
      analyze_conflicts_def analyze_contribution_def score_of_violations_def
      sample_config_def sample_product_def sample_targets_def)

text \<open>
  C9: in every state the menu-generation screen can reach, \<open>days\<close> is one of 3, 7, 14 and
  \<open>mealsPerDay\<close> is one of \<open>3_main\<close>, \<open>3_plus_2_snacks\<close>, \<open>2_plus_1_intermediate\<close>:
  the initial configuration is in both domains, every event keeps it there, and so every
  body posted to the API carries values of these domains.
\<close>

theorem C9_config_stays_in_domain:
  "config_in_domain (generateConfig initial_screen)
   \<and> (config_in_domain (generateConfig s) \<longrightarrow> config_in_domain (generateConfig (menus_step s e)))
   \<and> config_in_domain (generateConfig (screen_after evs))
   \<and> (\<forall>r \<in> set (posted (screen_after evs)). config_in_domain (request_config r))"
  using menus_foldl_inv [OF initial_screen_inv, of evs] initial_screen_inv
    menus_step_config [of s e]
  by (simp add: screen_after_def screen_inv_def)

theorem C9_config_stays_in_domain_witness:
  "config_in_domain (generateConfig initial_screen)
   \<and> days (generateConfig (menus_step initial_screen (PressDay 2))) = 14
   \<and> map (\<lambda>r. (days (request_config r), mealsPerDay (request_config r)))
        (posted (screen_after [PressDay 2, PressMeals 1, PressGenerate, PressDay 7,
           ChangeCustomRequest '' vegan '', PressDay 0, PressGenerateCustom]))
       = [(14, ''3_plus_2_snacks''), (3, ''3_plus_2_snacks'')]
   \<and> list_all config_in_domain
        (map request_config
          (posted (screen_after [PressDay 2, PressMeals 1, PressGenerate, PressDay 7,
             ChangeCustomRequest '' vegan '', PressDay 0, PressGenerateCustom])))"
  using C9_config_stays_in_domain [of initial_screen "PressDay 2"
      "[PressDay 2, PressMeals 1, PressGenerate, PressDay 7,
        ChangeCustomRequest '' vegan '', PressDay 0, PressGenerateCustom]"]
  by (simp add: screen_after_def initial_screen_def dayOptions_def mealOptions_def trim_def
      isStrWhiteSpaceChar_def config_in_domain_def)

text \<open>
  C10: the quantity of the add-to-meal flow starts at 100 and stays in \<open>[0, 1000]\<close> after
  every sequence of updates; the minus button maps \<open>q\<close> to \<open>max(10, q - 10)\<close>, never below
  10; the plus button maps \<open>q\<close> to \<open>min(1000, q + 10)\<close>; typed text is parsed and clamped
  to \<open>max(0, min(1000, parsed))\<close>, and text that does not parse gives 0.
\<close>

theorem C10_quantity_in_range:
  "quantity_after [] = 100
   \<and> 0 \<le> quantity_after evs \<and> quantity_after evs \<le> 1000
   \<and> quantity_step q PressMinus = max 10 (q - 10)
   \<and> 10 \<le> quantity_step q PressMinus
   \<and> quantity_step q PressPlus = min 1000 (q + 10)
   \<and> quantity_step q (ChangeText text)
       = max 0 (min 1000 (case parseInt text of None \<Rightarrow> 0 | Some n \<Rightarrow> n))
   \<and> (parseInt text = None \<longrightarrow> quantity_step q (ChangeText text) = 0)"
  using quantity_foldl_range [of initial_quantity evs]
  by (simp add: quantity_after_def initial_quantity_def Let_def split: option.splits)

theorem C10_quantity_in_range_witness:
  "quantity_after [PressPlus, ChangeText ''250'', PressMinus] = 240
   \<and> quantity_after [ChangeText ''5000'', PressPlus] = 1000
   \<and> parseInt ''abc'' = None
   \<and> quantity_step 240 (ChangeText ''abc'') = 0"
  using C10_quantity_in_range [of "[PressPlus, ChangeText ''250'', PressMinus]" 240 "''abc''"]
  by (simp add: quantity_after_def initial_quantity_def parseInt_def isStrWhiteSpaceChar_def
      isRadixDigit_def digitValue_def)

end
